theory Spec2Isabelle
  imports Complex_Main
begin

section \<open>Data model of \<open>app.py\<close>\<close>

text \<open>
  A calendar date is the number of days since 1970-01-01 (2023-01-01 is day 19358), so
  that \<open>pd.Timedelta(days=1)\<close> is \<open>+ 1\<close>. A seat count is an integer, held by pandas in
  an \<open>int64\<close> column; every other numeric quantity is a real number (exact arithmetic
  stands for NumPy's floats).

  The data frame \<open>df\<close> read at the top of the script has the six columns of \<open>usecols\<close>.
  The daily frame produced by \<open>groupby('Date').agg({'Seats_Booked': 'sum'})\<close> keeps
  only \<open>Date\<close> and \<open>Seats_Booked\<close>, so a row of \<open>df\<close> is an extension of a daily
  row: what reads those two columns works on both frames.
\<close>

record daily_row =
  Date :: int
  Seats_Booked :: int

record raw_observation = daily_row +
  Route_ID :: string
  Fuel_Consumption_Liters :: real
  Total_Seats :: int
  Ticket_Price :: real

text \<open>
  A cell of the column \<open>Seats_Booked_Diff\<close>: the frame has no such column (\<open>Absent\<close>,
  the \<open>else\<close> branch of the stationarity check), or the cell is \<open>NaN\<close>, or it holds a
  difference.
\<close>

datatype diff_cell = Absent | NaN | Diff int

record working_row = daily_row +
  Seats_Booked_Diff :: diff_cell

datatype error =
    Dataset_empty        \<comment> \<open>\<open>st.error("Dataset is empty"); st.stop()\<close>\<close>
  | Dataset_not_found    \<comment> \<open>\<open>st.error("Dataset not found"); st.stop()\<close>\<close>
  | EmptyDataError       \<comment> \<open>\<open>pd.read_csv\<close> on a file without a header line\<close>
  | IndexError           \<comment> \<open>\<open>.iloc[-1]\<close> on an empty column\<close>
  | ValueError           \<comment> \<open>\<open>mean_squared_error\<close> on inconsistent or empty inputs; \<open>adfuller\<close> on a
                             constant or too short series; \<open>read_csv\<close> on a missing \<open>usecols\<close> column\<close>
  | Library_error string \<comment> \<open>whatever else a library call raises\<close>

text \<open>
  The statsmodels calls are parameters of the pipeline. \<open>adfuller\<close> is the test on a
  series that passes its input checks (they are written out in \<open>statsmodels_adfuller\<close>
  below); it returns the tuple whose component 1 is the p-value (component 0 is the
  statistic; the rest is not read).
  \<open>SARIMAX_fit data order seasonal_order\<close> is \<open>SARIMAX(data, order=..., seasonal_order=...).fit()\<close>.
  A fitted result determines its out-of-sample predicted means one step after the other;
  \<open>forecast_mean res k\<close> is the one \<open>k\<close> steps after the first, and a forecast of
  \<open>steps\<close> steps is the first \<open>steps\<close> of them.
\<close>

record 'm statsmodels =
  adfuller :: "int list \<Rightarrow> error + (real \<times> real)"
  SARIMAX_fit :: "int list \<Rightarrow> nat \<times> nat \<times> nat \<Rightarrow> nat \<times> nat \<times> nat \<times> nat \<Rightarrow> error + 'm"
  forecast_mean :: "'m \<Rightarrow> nat \<Rightarrow> real"

section \<open>Preprocessing: the daily series (line 83)\<close>

text \<open>
  The value of a sum computed in \<open>int64\<close>: it wraps around modulo \<open>2\<^sup>6\<^sup>4\<close> into the range
  from \<open>-2\<^sup>6\<^sup>3\<close> to \<open>2\<^sup>6\<^sup>3 - 1\<close>, without an error.
\<close>

definition int64 :: "int \<Rightarrow> int" where
  "int64 v = (v + 2 ^ 63) mod 2 ^ 64 - 2 ^ 63"

text \<open>
  \<open>df.groupby('Date').agg({'Seats_Booked': 'sum'})\<close>: one row per distinct date, the
  groups in ascending key order (\<open>sort=True\<close> is the default), each with the \<open>int64\<close> sum
  of the seats of the rows of that date. Every row has a date (no \<open>NaT\<close>).
\<close>

definition groupby_Date_sum :: "'a daily_row_scheme list \<Rightarrow> daily_row list" where
  "groupby_Date_sum df =
     map (\<lambda>d. \<lparr>Date = d,
               Seats_Booked = int64 (sum_list (map Seats_Booked (filter (\<lambda>r. Date r = d) df)))\<rparr>)
         (sort (remdups (map Date df)))"

definition sort_values_by_Date :: "daily_row list \<Rightarrow> daily_row list" where
  "sort_values_by_Date rows = sort_key Date rows"

text \<open>\<open>reset_index()\<close> turns the group key back into the column \<open>Date\<close>; on rows it is the identity.\<close>

definition df_daily :: "'a daily_row_scheme list \<Rightarrow> daily_row list" where
  "df_daily df = sort_values_by_Date (groupby_Date_sum df)"

section \<open>Stationarity check (lines 86 to 96)\<close>

text \<open>
  \<open>adfuller(x)\<close> with its defaults (\<open>regression='c'\<close>, one trend term) first checks its
  input: it raises \<open>ValueError\<close> when \<open>x.max() == x.min()\<close> ("x is constant") and when
  \<open>maxlag = min(nobs // 2 - ntrend - 1, ...)\<close> is negative ("sample size is too short"),
  that is for fewer than 4 observations.
\<close>

definition statsmodels_adfuller :: "'m statsmodels \<Rightarrow> int list \<Rightarrow> error + (real \<times> real)" where
  "statsmodels_adfuller lib x =
     (if length (remdups x) \<le> 1 then Inl ValueError
      else if int (length x) div 2 - 1 - 1 < 0 then Inl ValueError
      else adfuller lib x)"

definition adf_test :: "'m statsmodels \<Rightarrow> int list \<Rightarrow> error + real" where
  "adf_test lib series =
     (case statsmodels_adfuller lib series of Inl e \<Rightarrow> Inl e | Inr result \<Rightarrow> Inr (snd result))"

text \<open>\<open>Series.diff()\<close>: position 0 is NaN (\<open>None\<close>), position i is value[i] - value[i-1].\<close>

definition diff :: "int list \<Rightarrow> int option list" where
  "diff xs = (case xs of [] \<Rightarrow> [] | _ # rest \<Rightarrow> None # map Some (map2 (\<lambda>a b. a - b) rest xs))"

text \<open>\<open>dropna()\<close> keeps the entries that are not NaN, each with its index label.\<close>

definition dropna :: "int option list \<Rightarrow> (nat \<times> int) list" where
  "dropna s = concat (map (\<lambda>(i, v). case v of None \<Rightarrow> [] | Some x \<Rightarrow> [(i, x)]) (enumerate 0 s))"

text \<open>
  \<open>df_daily["Seats_Booked_Diff"] = series\<close> aligns the series on the frame's index
  (0 to n - 1 after \<open>reset_index\<close>): a row whose label the series lacks gets NaN.
\<close>

definition set_Seats_Booked_Diff :: "daily_row list \<Rightarrow> (nat \<times> int) list \<Rightarrow> working_row list" where
  "set_Seats_Booked_Diff rows s =
     map (\<lambda>(i, r). \<lparr>Date = Date r, Seats_Booked = Seats_Booked r,
                    Seats_Booked_Diff = (case map_of s i of None \<Rightarrow> NaN | Some x \<Rightarrow> Diff x)\<rparr>)
         (enumerate 0 rows)"

definition without_Seats_Booked_Diff :: "daily_row list \<Rightarrow> working_row list" where
  "without_Seats_Booked_Diff rows =
     map (\<lambda>r. \<lparr>Date = Date r, Seats_Booked = Seats_Booked r, Seats_Booked_Diff = Absent\<rparr>) rows"

definition check_stationarity :: "real \<Rightarrow> daily_row list \<Rightarrow> working_row list" where
  "check_stationarity p_value rows =
     (if p_value > 0.05
      then set_Seats_Booked_Diff rows (dropna (diff (map Seats_Booked rows)))
      else without_Seats_Booked_Diff rows)"

section \<open>Train-test split (lines 99 and 100)\<close>

text \<open>
  \<open>int(len(df_daily) * 0.8)\<close>: \<open>int\<close> truncates, which on a non-negative number is the
  floor. The product is taken here in exact arithmetic; the double nearest to 0.8 exceeds
  it by a relative \<open>2\<^sup>-\<^sup>5\<^sup>4\<close>, less than half a unit in the last place, so the rounded
  double product truncates to the same integer for every length a frame can have.
\<close>

definition train_size :: "nat \<Rightarrow> nat" where
  "train_size n = nat \<lfloor>real n * 0.8\<rfloor>"

definition train_test_split :: "'a list \<Rightarrow> 'a list \<times> 'a list" where
  "train_test_split frame =
     (take (train_size (length frame)) frame, drop (train_size (length frame)) frame)"

section \<open>Model training (lines 103 to 108)\<close>

text \<open>The orders are the literals of the source; \<open>st.cache_resource\<close> memoises the call and does not change its value.\<close>

definition train_sarima :: "'m statsmodels \<Rightarrow> int list \<Rightarrow> error + 'm" where
  "train_sarima lib train_data = SARIMAX_fit lib train_data (1, 1, 1) (1, 1, 1, 60)"

section \<open>Evaluation on the test window (lines 111 to 116)\<close>

text \<open>
  \<open>sarima_result.get_forecast(steps=...).predicted_mean\<close> and
  \<open>sarima_result.forecast(steps=...)\<close>. The page calls both with at least one step (a
  non-empty frame has a non-empty test part, and the slider starts at 7); what statsmodels
  does with zero steps is not part of the model.
\<close>

definition get_forecast :: "'m statsmodels \<Rightarrow> 'm \<Rightarrow> nat \<Rightarrow> real list" where
  "get_forecast lib sarima_result steps = map (forecast_mean lib sarima_result) [0..<steps]"

definition forecast :: "'m statsmodels \<Rightarrow> 'm \<Rightarrow> nat \<Rightarrow> real list" where
  "forecast lib sarima_result steps = map (forecast_mean lib sarima_result) [0..<steps]"

text \<open>
  \<open>sklearn.metrics.mean_squared_error(y_true, y_pred)\<close>: the two inputs must have the same
  number of samples, and at least one, otherwise it raises \<open>ValueError\<close>; the result is the
  mean of the squared differences.
\<close>

definition mean_squared_error :: "real list \<Rightarrow> real list \<Rightarrow> error + real" where
  "mean_squared_error y_true y_pred =
     (if length y_true \<noteq> length y_pred \<or> y_true = [] then Inl ValueError
      else Inr (sum_list (map2 (\<lambda>t p. (t - p)\<^sup>2) y_true y_pred) / real (length y_true)))"

text \<open>Lines 111 to 115: the forecast over the test window and its score, \<open>(test_forecast_mean, rmse)\<close>.\<close>

definition evaluator :: "'m statsmodels \<Rightarrow> 'm \<Rightarrow> 'a daily_row_scheme list \<Rightarrow> error + (real list \<times> real)" where
  "evaluator lib sarima_result test =
     (let test_forecast_mean = get_forecast lib sarima_result (length test)
      in case mean_squared_error (map (\<lambda>r. real_of_int (Seats_Booked r)) test) test_forecast_mean of
           Inl e \<Rightarrow> Inl e
         | Inr mse \<Rightarrow> Inr (test_forecast_mean, sqrt mse))"

section \<open>Future forecast (lines 119 to 125)\<close>

text \<open>\<open>pd.date_range(start=..., periods=...)\<close> with the default daily frequency.\<close>

definition date_range :: "int \<Rightarrow> nat \<Rightarrow> int list" where
  "date_range start periods = map (\<lambda>i. start + int i) [0..<periods]"

text \<open>\<open>column.iloc[-1]\<close> raises \<open>IndexError\<close> on an empty column.\<close>

definition iloc_last :: "'a list \<Rightarrow> error + 'a" where
  "iloc_last column = (if column = [] then Inl IndexError else Inr (last column))"

text \<open>
  Lines 122 to 125: \<open>(sarima_forecast_next, future_dates)\<close>. \<open>future_steps\<close> is what
  \<open>st.slider(..., min_value=7, max_value=90, value=30)\<close> returned at line 119: the position
  of the widget, 30 until the user moves it. The script does not check it.
\<close>

definition forecaster :: "'m statsmodels \<Rightarrow> 'm \<Rightarrow> nat \<Rightarrow> 'a daily_row_scheme list \<Rightarrow> error + (real list \<times> int list)" where
  "forecaster lib sarima_result future_steps frame =
     (let sarima_forecast_next = forecast lib sarima_result future_steps
      in case iloc_last (map Date frame) of
           Inl e \<Rightarrow> Inl e
         | Inr last_date \<Rightarrow> Inr (sarima_forecast_next, date_range (last_date + 1) future_steps))"

section \<open>The page "Demand Forecasting" (lines 78 to 147)\<close>

record 'm forecast_response =
  p_value :: real
  working :: "working_row list"
  train :: "working_row list"
  test :: "working_row list"
  train_data :: "int list"
  sarima_result :: 'm
  test_forecast_mean :: "real list"
  rmse :: real
  sarima_forecast_next :: "real list"
  future_dates :: "int list"

text \<open>
  The script stops before any page when the data set is empty (lines 18 to 20). An
  exception of a library call ends the run. \<open>train_data\<close> is the argument of
  \<open>train_sarima\<close>, the column \<open>train['Seats_Booked']\<close>.
\<close>

definition demand_forecasting :: "'m statsmodels \<Rightarrow> nat \<Rightarrow> 'a daily_row_scheme list \<Rightarrow> error + 'm forecast_response" where
  "demand_forecasting lib future_steps df =
     (if df = [] then Inl Dataset_empty
      else case adf_test lib (map Seats_Booked (df_daily df)) of
        Inl e \<Rightarrow> Inl e
      | Inr p \<Rightarrow>
          (let frame = check_stationarity p (df_daily df);
               tr = fst (train_test_split frame);
               te = snd (train_test_split frame)
           in case train_sarima lib (map Seats_Booked tr) of
                Inl e \<Rightarrow> Inl e
              | Inr res \<Rightarrow>
                  (case evaluator lib res te of
                     Inl e \<Rightarrow> Inl e
                   | Inr (tfm, score) \<Rightarrow>
                       (case forecaster lib res future_steps frame of
                          Inl e \<Rightarrow> Inl e
                        | Inr (nxt, dates) \<Rightarrow>
                            Inr \<lparr>p_value = p, working = frame, train = tr, test = te,
                                 train_data = map Seats_Booked tr, sarima_result = res,
                                 test_forecast_mean = tfm, rmse = score,
                                 sarima_forecast_next = nxt, future_dates = dates\<rparr>))))"

section \<open>Loading the data set (lines 13 to 23)\<close>







section \<open>The page "Upload Data" (lines 151 to 160)\<close>







section \<open>Inputs for the worked examples\<close>

text \<open>
  Ten days, 2023-01-01 to 2023-01-10, with 10, 12, 15, 14, 18, 21, 20, 25, 27 and 30 seats.
  For these values \<open>adfuller\<close> selects 3 lags and returns a statistic of about 1.294 and a
  p-value of about 0.9966 (it is above 0.9 for every number of lags the test may select).
\<close>

definition ten_days :: "daily_row list" where
  "ten_days =
     [\<lparr>Date = 19358, Seats_Booked = 10\<rparr>, \<lparr>Date = 19359, Seats_Booked = 12\<rparr>,
      \<lparr>Date = 19360, Seats_Booked = 15\<rparr>, \<lparr>Date = 19361, Seats_Booked = 14\<rparr>,
      \<lparr>Date = 19362, Seats_Booked = 18\<rparr>, \<lparr>Date = 19363, Seats_Booked = 21\<rparr>,
      \<lparr>Date = 19364, Seats_Booked = 20\<rparr>, \<lparr>Date = 19365, Seats_Booked = 25\<rparr>,
      \<lparr>Date = 19366, Seats_Booked = 27\<rparr>, \<lparr>Date = 19367, Seats_Booked = 30\<rparr>]"

text \<open>
  A stand-in for statsmodels: \<open>adfuller\<close> knows the ten-day series only, fitting returns
  the training data itself, and every predicted mean is the last training value.
\<close>

definition naive_statsmodels :: "int list statsmodels" where
  "naive_statsmodels =
     \<lparr>adfuller = (\<lambda>series. if series = [10, 12, 15, 14, 18, 21, 20, 25, 27, 30]
                            then Inr (1.294, 0.9966)
                            else Inl (Library_error ''adfuller: series not tabulated'')),
      SARIMAX_fit = (\<lambda>data order seasonal_order. Inr data),
      forecast_mean = (\<lambda>res k. if res = [] then 0 else real_of_int (last res))\<rparr>"

text \<open>The four-day series 2023-01-01 to 2023-01-04 with 10, 12, 9 and 15 seats.\<close>

definition scenario_series :: "daily_row list" where
  "scenario_series =
     [\<lparr>Date = 19358, Seats_Booked = 10\<rparr>, \<lparr>Date = 19359, Seats_Booked = 12\<rparr>,
      \<lparr>Date = 19360, Seats_Booked = 9\<rparr>, \<lparr>Date = 19361, Seats_Booked = 15\<rparr>]"

text \<open>A data set of one trip and one of three trips on three days.\<close>

definition one_day :: "daily_row list" where
  "one_day = [\<lparr>Date = 19358, Seats_Booked = 10\<rparr>]"

definition three_days :: "daily_row list" where
  "three_days =
     [\<lparr>Date = 19358, Seats_Booked = 10\<rparr>, \<lparr>Date = 19359, Seats_Booked = 12\<rparr>,
      \<lparr>Date = 19360, Seats_Booked = 9\<rparr>]"

text \<open>Two trips on one day whose seat counts add up to \<open>2\<^sup>6\<^sup>3\<close>.\<close>

definition two_large_trips :: "daily_row list" where
  "two_large_trips =
     [\<lparr>Date = 19358, Seats_Booked = 9223372036854775807\<rparr>, \<lparr>Date = 19358, Seats_Booked = 1\<rparr>]"





section \<open>Facts about the split and the aggregation\<close>

lemma train_size_eq: "train_size n = 4 * n div 5"
proof -
  have "real n * 0.8 = real (4 * n) / real 5" by simp
  then have "\<lfloor>real n * 0.8\<rfloor> = int (4 * n div 5)"
    by (simp only: floor_divide_of_nat_eq)
  then show ?thesis by (simp add: train_size_def)
qed

lemma train_size_le: "train_size n \<le> n"
  by (simp add: train_size_eq)

lemma two_power_64: "(2 :: int) ^ 64 = 2 * 2 ^ 63"
  by simp

lemma int64_range: "- (2 ^ 63) \<le> int64 v \<and> int64 v < 2 ^ 63"
proof -
  have "0 \<le> (v + 2 ^ 63) mod (2 ^ 64 :: int)" and "(v + 2 ^ 63) mod (2 ^ 64 :: int) < 2 ^ 64"
    by simp_all
  then show ?thesis unfolding int64_def using two_power_64 by linarith
qed

lemma int64_in_range: "- (2 ^ 63) \<le> v \<Longrightarrow> v < 2 ^ 63 \<Longrightarrow> int64 v = v"
proof -
  assume "- (2 ^ 63) \<le> v" and "v < 2 ^ 63"
  then have "0 \<le> v + 2 ^ 63" and "v + 2 ^ 63 < 2 ^ 64"
    using two_power_64 by linarith+
  then have "(v + 2 ^ 63) mod (2 ^ 64 :: int) = v + 2 ^ 63"
    by (rule mod_pos_pos_trivial)
  then show ?thesis by (simp add: int64_def)
qed

lemma int64_idem: "int64 (int64 v) = int64 v"
  using int64_range [of v] by (intro int64_in_range) simp_all

lemma Date_groupby: "map Date (groupby_Date_sum df) = sort (remdups (map Date df))"
  by (simp add: groupby_Date_sum_def comp_def)

lemma df_daily_groupby: "df_daily df = groupby_Date_sum df"
  by (simp add: df_daily_def sort_values_by_Date_def sort_key_id_if_sorted Date_groupby)

lemma filter_key_distinct:
  assumes "\<And>x. f (g x) = x"
  shows "distinct ds \<Longrightarrow> d \<in> set ds \<Longrightarrow> filter (\<lambda>r. f r = d) (map g ds) = [g d]"
  using assms by (induction ds) (auto simp: filter_empty_conv)

lemma groupby_idem: "groupby_Date_sum (groupby_Date_sum df) = groupby_Date_sum df"
proof -
  let ?ds = "sort (remdups (map Date df))"
  have 1: "sort (remdups (map Date (groupby_Date_sum df))) = ?ds"
    by (simp add: Date_groupby sorted_sort_id)
  show ?thesis
    unfolding groupby_Date_sum_def[of "groupby_Date_sum df"] 1
    apply (subst (2) groupby_Date_sum_def)
    apply (rule map_cong[OF refl])
    apply (subst groupby_Date_sum_def)
    apply (subst filter_key_distinct)
    apply (simp_all add: int64_idem)
    done
qed

section \<open>Facts about forecasts, dates and the score\<close>

lemma length_get_forecast: "length (get_forecast lib res steps) = steps"
  by (simp add: get_forecast_def)

lemma length_forecast: "length (forecast lib res steps) = steps"
  by (simp add: forecast_def)

lemma length_date_range: "length (date_range start periods) = periods"
  by (simp add: date_range_def)

lemma nth_date_range: "i < periods \<Longrightarrow> date_range start periods ! i = start + int i"
  by (simp add: date_range_def)

lemma forecaster_nonempty:
  "frame \<noteq> [] \<Longrightarrow>
     forecaster lib res h frame
       = Inr (forecast lib res h, date_range (Date (last frame) + 1) h)"
  by (simp add: forecaster_def iloc_last_def last_map)



lemma evaluator_nonempty:
  "test_rows \<noteq> [] \<Longrightarrow>
     evaluator lib res test_rows
       = Inr (get_forecast lib res (length test_rows),
              sqrt (sum_list (map2 (\<lambda>t p. (t - p)\<^sup>2)
                       (map (\<lambda>r. real_of_int (Seats_Booked r)) test_rows)
                       (get_forecast lib res (length test_rows)))
                    / real (length test_rows)))"
  by (simp add: evaluator_def mean_squared_error_def length_get_forecast Let_def)

section \<open>Facts about a run of the forecasting page\<close>

lemma adf_test_short: "length series < 4 \<Longrightarrow> adf_test lib series = Inl ValueError"
proof -
  assume "length series < 4"
  then have "int (length series) div 2 - 1 - 1 < 0" by linarith
  then show ?thesis by (simp add: adf_test_def statsmodels_adfuller_def)
qed

lemma adf_test_Inr:
  "adf_test lib series = Inr p \<Longrightarrow> 4 \<le> length series \<and> (\<exists>stat. adfuller lib series = Inr (stat, p))"
proof -
  assume a: "adf_test lib series = Inr p"
  then have "\<not> int (length series) div 2 - 1 - 1 < 0"
    by (auto simp add: adf_test_def statsmodels_adfuller_def split: if_splits)
  then have "4 \<le> length series" by linarith
  moreover from a have "\<exists>stat. adfuller lib series = Inr (stat, p)"
    by (auto simp add: adf_test_def statsmodels_adfuller_def split: if_splits sum.splits)
  ultimately show ?thesis by blast
qed

lemma map_enumerate_proj:
  assumes "\<And>i r. f (g i r) = h r"
  shows "map (f \<circ> (\<lambda>(i, r). g i r)) (enumerate n xs) = map h xs"
  using assms by (induction xs arbitrary: n) simp_all

lemma set_Seats_Booked_Diff_columns:
  "map Seats_Booked (set_Seats_Booked_Diff rows s) = map Seats_Booked rows"
  "map Date (set_Seats_Booked_Diff rows s) = map Date rows"
  "length (set_Seats_Booked_Diff rows s) = length rows"
  by (simp_all add: set_Seats_Booked_Diff_def map_enumerate_proj)

lemma check_stationarity_columns:
  "map Seats_Booked (check_stationarity p rows) = map Seats_Booked rows"
  "map Date (check_stationarity p rows) = map Date rows"
  "length (check_stationarity p rows) = length rows"
  by (simp_all add: check_stationarity_def set_Seats_Booked_Diff_columns
      without_Seats_Booked_Diff_def comp_def)

lemma demand_forecasting_Inr:
  assumes "demand_forecasting lib h df = Inr r"
  shows "\<exists>p. df \<noteq> []
     \<and> adf_test lib (map Seats_Booked (df_daily df)) = Inr p
     \<and> p_value r = p
     \<and> working r = check_stationarity p (df_daily df)
     \<and> train r = fst (train_test_split (working r))
     \<and> test r = snd (train_test_split (working r))
     \<and> train_data r = map Seats_Booked (train r)
     \<and> train_sarima lib (train_data r) = Inr (sarima_result r)
     \<and> evaluator lib (sarima_result r) (test r) = Inr (test_forecast_mean r, rmse r)
     \<and> forecaster lib (sarima_result r) h (working r) = Inr (sarima_forecast_next r, future_dates r)"
  using assms
  by (auto simp add: demand_forecasting_def Let_def split: if_splits sum.splits prod.splits)

lemma train_size_ge3: "4 \<le> n \<Longrightarrow> 3 \<le> train_size n \<and> train_size n < n"
  unfolding train_size_eq by linarith

section \<open>Facts about the upload page\<close>





section \<open>Facts about the worked examples\<close>

lemma df_daily_ten_days: "df_daily ten_days = ten_days"
  by (simp add: df_daily_def sort_values_by_Date_def groupby_Date_sum_def ten_days_def int64_def)

lemma adf_test_ten_days:
  "adf_test naive_statsmodels (map Seats_Booked ten_days) = Inr 0.9966"
  by (simp add: adf_test_def statsmodels_adfuller_def naive_statsmodels_def ten_days_def)

lemma working_ten_days:
  "check_stationarity 0.9966 ten_days =
     [\<lparr>Date = 19358, Seats_Booked = 10, Seats_Booked_Diff = NaN\<rparr>,
      \<lparr>Date = 19359, Seats_Booked = 12, Seats_Booked_Diff = Diff 2\<rparr>,
      \<lparr>Date = 19360, Seats_Booked = 15, Seats_Booked_Diff = Diff 3\<rparr>,
      \<lparr>Date = 19361, Seats_Booked = 14, Seats_Booked_Diff = Diff (- 1)\<rparr>,
      \<lparr>Date = 19362, Seats_Booked = 18, Seats_Booked_Diff = Diff 4\<rparr>,
      \<lparr>Date = 19363, Seats_Booked = 21, Seats_Booked_Diff = Diff 3\<rparr>,
      \<lparr>Date = 19364, Seats_Booked = 20, Seats_Booked_Diff = Diff (- 1)\<rparr>,
      \<lparr>Date = 19365, Seats_Booked = 25, Seats_Booked_Diff = Diff 5\<rparr>,
      \<lparr>Date = 19366, Seats_Booked = 27, Seats_Booked_Diff = Diff 2\<rparr>,
      \<lparr>Date = 19367, Seats_Booked = 30, Seats_Booked_Diff = Diff 3\<rparr>]"
  by (simp add: check_stationarity_def set_Seats_Booked_Diff_def dropna_def diff_def ten_days_def
      enumerate_eq_zip upt_conv_Cons)

lemma run_ten_days:
  "\<exists>r. demand_forecasting naive_statsmodels 30 ten_days = Inr r
       \<and> working r = check_stationarity 0.9966 ten_days"
proof -
  let ?W = "check_stationarity 0.9966 ten_days"
  let ?te = "[\<lparr>Date = 19366, Seats_Booked = 27, Seats_Booked_Diff = Diff 2\<rparr>,
              \<lparr>Date = 19367, Seats_Booked = 30, Seats_Booked_Diff = Diff 3\<rparr>]"
  have ne: "(ten_days = []) = False" by (simp add: ten_days_def)
  have tr: "fst (train_test_split ?W) = take 8 ?W" and te: "snd (train_test_split ?W) = ?te"
    unfolding working_ten_days by (simp_all add: train_test_split_def train_size_eq)
  have col: "map Seats_Booked (take 8 ?W) = [10, 12, 15, 14, 18, 21, 20, 25]"
    unfolding working_ten_days by simp
  have fit: "train_sarima naive_statsmodels [10, 12, 15, 14, 18, 21, 20, 25]
               = Inr [10, 12, 15, 14, 18, 21, 20, 25]"
    by (simp add: train_sarima_def naive_statsmodels_def)
  have "\<exists>s. evaluator naive_statsmodels [10, 12, 15, 14, 18, 21, 20, 25] ?te = Inr ([25, 25], s)"
    by (simp add: evaluator_nonempty get_forecast_def naive_statsmodels_def upt_conv_Cons)
  then obtain s where ev: "evaluator naive_statsmodels [10, 12, 15, 14, 18, 21, 20, 25] ?te = Inr ([25, 25], s)" ..
  have wne: "?W \<noteq> []" unfolding working_ten_days by simp
  show ?thesis
    unfolding demand_forecasting_def df_daily_ten_days adf_test_ten_days
    by (simp only: ne if_False sum.case Let_def tr te col fit ev prod.case
        forecaster_nonempty [OF wne]) simp
qed

lemma df_daily_one_day: "df_daily one_day = one_day"
  by (simp add: df_daily_def sort_values_by_Date_def groupby_Date_sum_def one_day_def int64_def)

lemma df_daily_three_days: "df_daily three_days = three_days"
  by (simp add: df_daily_def sort_values_by_Date_def groupby_Date_sum_def three_days_def int64_def)










section \<open>The aggregator\<close>

text \<open>
  C8, as stated, fails: two trips on one day with 9223372036854775807 seats and 1 seat add
  up to \<open>2\<^sup>6\<^sup>3\<close>, and the daily series holds \<open>-2\<^sup>6\<^sup>3\<close> for that day.
\<close>

theorem aggregator_sum_wraps_counterexample:
  "df_daily two_large_trips = [\<lparr>Date = 19358, Seats_Booked = - 9223372036854775808\<rparr>]
   \<and> sum_list (map Seats_Booked (filter (\<lambda>r. Date r = 19358) two_large_trips)) = 9223372036854775808"
  by (simp add: df_daily_def sort_values_by_Date_def groupby_Date_sum_def two_large_trips_def int64_def)

text \<open>
  C8, amended. Whatever the rows of \<open>df\<close>, the dates of the daily series are strictly
  increasing, so each occurs once; they are the dates present in \<open>df\<close>; the seats of each
  entry are the \<open>int64\<close> sum of \<open>Seats_Booked\<close> over the rows of \<open>df\<close> with that date,
  which is the sum itself whenever that lies between \<open>-2\<^sup>6\<^sup>3\<close> and \<open>2\<^sup>6\<^sup>3 - 1\<close>; and
  aggregating the daily series again returns it unchanged.
\<close>

theorem aggregator_sorted_int64_sums_idempotent:
  "sorted_wrt (<) (map Date (df_daily df))
   \<and> distinct (map Date (df_daily df))
   \<and> set (map Date (df_daily df)) = Date ` set df
   \<and> map Seats_Booked (df_daily df) =
       map (\<lambda>d. int64 (sum_list (map Seats_Booked (filter (\<lambda>r. Date r = d) df)))) (map Date (df_daily df))
   \<and> ((\<forall>d \<in> Date ` set df. - (2 ^ 63) \<le> sum_list (map Seats_Booked (filter (\<lambda>r. Date r = d) df))
                              \<and> sum_list (map Seats_Booked (filter (\<lambda>r. Date r = d) df)) < 2 ^ 63)
        \<longrightarrow> map Seats_Booked (df_daily df) =
              map (\<lambda>d. sum_list (map Seats_Booked (filter (\<lambda>r. Date r = d) df))) (map Date (df_daily df)))
   \<and> df_daily (df_daily df) = df_daily df"
proof -
  have 1: "sorted_wrt (<) (map Date (df_daily df))"
    by (simp add: df_daily_groupby Date_groupby strict_sorted_iff)
  have 2: "distinct (map Date (df_daily df))"
    by (simp add: df_daily_groupby Date_groupby)
  have 3: "set (map Date (df_daily df)) = Date ` set df"
    by (simp add: df_daily_groupby Date_groupby)
  have 4: "map Seats_Booked (df_daily df) =
       map (\<lambda>d. int64 (sum_list (map Seats_Booked (filter (\<lambda>r. Date r = d) df)))) (map Date (df_daily df))"
    unfolding df_daily_groupby Date_groupby by (simp add: groupby_Date_sum_def comp_def)
  have 5: "map Seats_Booked (df_daily df) =
              map (\<lambda>d. sum_list (map Seats_Booked (filter (\<lambda>r. Date r = d) df))) (map Date (df_daily df))"
    if "\<forall>d \<in> Date ` set df. - (2 ^ 63) \<le> sum_list (map Seats_Booked (filter (\<lambda>r. Date r = d) df))
                              \<and> sum_list (map Seats_Booked (filter (\<lambda>r. Date r = d) df)) < 2 ^ 63"
    unfolding 4 using that 3 by (intro map_cong [OF refl] int64_in_range) auto
  have 6: "df_daily (df_daily df) = df_daily df"
    by (simp add: df_daily_groupby groupby_idem)
  from 1 2 3 4 5 6 show ?thesis by blast
qed

theorem aggregator_sorted_int64_sums_idempotent_witness:
  "Date ` set scenario_series = {19358, 19359, 19360, 19361}
   \<and> map (\<lambda>d. sum_list (map Seats_Booked (filter (\<lambda>r. Date r = d) scenario_series)))
         [19358, 19359, 19360, 19361] = [10, 12, 9, 15]
   \<and> - (2 ^ 63) \<le> (9 :: int) \<and> (15 :: int) < 2 ^ 63
   \<and> map Date (df_daily scenario_series) = [19358, 19359, 19360, 19361]
   \<and> map Seats_Booked (df_daily scenario_series) = [10, 12, 9, 15]"
proof -
  have d: "map Date (df_daily scenario_series) = [19358, 19359, 19360, 19361]"
    by (simp add: df_daily_groupby Date_groupby scenario_series_def)
  have i: "Date ` set scenario_series = {19358, 19359, 19360, 19361}"
    by (simp add: scenario_series_def)
  have s: "map (\<lambda>d. sum_list (map Seats_Booked (filter (\<lambda>r. Date r = d) scenario_series)))
         [19358, 19359, 19360, 19361] = [10, 12, 9, 15]"
    by (simp add: scenario_series_def)
  have b: "\<forall>d \<in> Date ` set scenario_series.
       - (2 ^ 63) \<le> sum_list (map Seats_Booked (filter (\<lambda>r. Date r = d) scenario_series))
       \<and> sum_list (map Seats_Booked (filter (\<lambda>r. Date r = d) scenario_series)) < 2 ^ 63"
    unfolding i using s by simp
  from aggregator_sorted_int64_sums_idempotent [of scenario_series] b
  have "map Seats_Booked (df_daily scenario_series) =
          map (\<lambda>d. sum_list (map Seats_Booked (filter (\<lambda>r. Date r = d) scenario_series)))
            (map Date (df_daily scenario_series))"
    by blast
  then have v: "map Seats_Booked (df_daily scenario_series) = [10, 12, 9, 15]"
    unfolding d s .
  have r: "- (2 ^ 63) \<le> (9 :: int)" "(15 :: int) < 2 ^ 63"
    by simp_all
  show ?thesis
    by (intro conjI) (rule i s r d v)+
qed

section \<open>The stationarity check and what the later steps read\<close>

text \<open>
  C1, on the code. Whatever the libraries compute: when the ADF p-value is above 0.05 and
  the run completes, the frame gets the differences in the new column
  \<open>Seats_Booked_Diff\<close> and keeps all its rows; the split is taken over the undifferenced
  rows, the model is fitted on the first \<open>floor(0.8 * n)\<close> values of \<open>Seats_Booked\<close> as
  they were, and the score is computed against the remaining values of \<open>Seats_Booked\<close>.
  No later step reads the new column.
\<close>

theorem differenced_series_not_consumed:
  "adf_test lib (map Seats_Booked (df_daily df)) = Inr p \<Longrightarrow> p > 0.05 \<Longrightarrow>
   demand_forecasting lib h df = Inr r \<Longrightarrow>
     working r = set_Seats_Booked_Diff (df_daily df) (dropna (diff (map Seats_Booked (df_daily df))))
     \<and> length (working r) = length (df_daily df)
     \<and> map Seats_Booked (working r) = map Seats_Booked (df_daily df)
     \<and> map Seats_Booked (train r) = take (train_size (length (df_daily df))) (map Seats_Booked (df_daily df))
     \<and> map Seats_Booked (test r) = drop (train_size (length (df_daily df))) (map Seats_Booked (df_daily df))
     \<and> train_sarima lib (map Seats_Booked (train r)) = Inr (sarima_result r)
     \<and> evaluator lib (sarima_result r) (test r) = Inr (test_forecast_mean r, rmse r)"
proof -
  assume adf: "adf_test lib (map Seats_Booked (df_daily df)) = Inr p" and p: "p > 0.05"
    and run: "demand_forecasting lib h df = Inr r"
  from demand_forecasting_Inr [OF run] adf
  have w: "working r = check_stationarity p (df_daily df)"
    and tr: "train r = fst (train_test_split (working r))"
    and te: "test r = snd (train_test_split (working r))"
    and td: "train_data r = map Seats_Booked (train r)"
    and fit: "train_sarima lib (train_data r) = Inr (sarima_result r)"
    and ev: "evaluator lib (sarima_result r) (test r) = Inr (test_forecast_mean r, rmse r)"
    by auto
  have w': "working r = set_Seats_Booked_Diff (df_daily df) (dropna (diff (map Seats_Booked (df_daily df))))"
    using w p by (simp add: check_stationarity_def)
  have len: "length (working r) = length (df_daily df)"
    and col: "map Seats_Booked (working r) = map Seats_Booked (df_daily df)"
    unfolding w by (rule check_stationarity_columns)+
  have "map Seats_Booked (train r) = take (train_size (length (df_daily df))) (map Seats_Booked (df_daily df))"
    unfolding tr train_test_split_def fst_conv len take_map [symmetric] col ..
  moreover have "map Seats_Booked (test r) = drop (train_size (length (df_daily df))) (map Seats_Booked (df_daily df))"
    unfolding te train_test_split_def snd_conv len drop_map [symmetric] col ..
  ultimately show ?thesis using w' len col fit ev td by simp
qed

text \<open>
  On the ten-day series the p-value is above 0.05; the differences 2, 3, -1, 4, 3, -1, 5, 2, 3
  are stored, and the model is fitted on 10, 12, 15, 14, 18, 21, 20, 25 and scored against
  27, 30.
\<close>

theorem differenced_series_not_consumed_witness:
  "adf_test naive_statsmodels (map Seats_Booked (df_daily ten_days)) = Inr 0.9966
   \<and> (0.9966 :: real) > 0.05
   \<and> (\<exists>r. demand_forecasting naive_statsmodels 30 ten_days = Inr r
         \<and> map Seats_Booked_Diff (working r)
             = [NaN, Diff 2, Diff 3, Diff (- 1), Diff 4, Diff 3, Diff (- 1), Diff 5, Diff 2, Diff 3]
         \<and> length (working r) = 10
         \<and> map Seats_Booked (train r) = [10, 12, 15, 14, 18, 21, 20, 25]
         \<and> map Seats_Booked (test r) = [27, 30]
         \<and> train_sarima naive_statsmodels [10, 12, 15, 14, 18, 21, 20, 25] = Inr (sarima_result r))"
proof -
  from run_ten_days obtain r where run: "demand_forecasting naive_statsmodels 30 ten_days = Inr r"
    and w: "working r = check_stationarity 0.9966 ten_days" by blast
  have adf: "adf_test naive_statsmodels (map Seats_Booked (df_daily ten_days)) = Inr 0.9966"
    unfolding df_daily_ten_days by (rule adf_test_ten_days)
  have p: "(0.9966 :: real) > 0.05" by simp
  have ts: "train_size (length (df_daily ten_days)) = 8"
    unfolding df_daily_ten_days by (simp add: ten_days_def train_size_eq)
  have raw: "map Seats_Booked (df_daily ten_days) = [10, 12, 15, 14, 18, 21, 20, 25, 27, 30]"
    unfolding df_daily_ten_days by (simp add: ten_days_def)
  have d: "map Seats_Booked_Diff (working r)
             = [NaN, Diff 2, Diff 3, Diff (- 1), Diff 4, Diff 3, Diff (- 1), Diff 5, Diff 2, Diff 3]"
    unfolding w working_ten_days by simp
  note th = differenced_series_not_consumed [OF adf p run, unfolded ts raw]
  from th have l: "length (working r) = length (df_daily ten_days)"
    and tr: "map Seats_Booked (train r) = take 8 [10, 12, 15, 14, 18, 21, 20, 25, 27, 30]"
    and te: "map Seats_Booked (test r) = drop 8 [10, 12, 15, 14, 18, 21, 20, 25, 27, 30]"
    and fit: "train_sarima naive_statsmodels (map Seats_Booked (train r)) = Inr (sarima_result r)"
    by blast+
  have l10: "length (working r) = 10"
    unfolding l df_daily_ten_days by (simp add: ten_days_def)
  have tr8: "map Seats_Booked (train r) = [10, 12, 15, 14, 18, 21, 20, 25]"
    unfolding tr by simp
  have te2: "map Seats_Booked (test r) = [27, 30]"
    unfolding te by simp
  have fit8: "train_sarima naive_statsmodels [10, 12, 15, 14, 18, 21, 20, 25] = Inr (sarima_result r)"
    using fit unfolding tr8 .
  show ?thesis
    by (intro conjI exI [of _ r]) (rule adf p run d l10 tr8 te2 fit8)+
qed

section \<open>The splitter\<close>

text \<open>
  C2. The train part has \<open>floor(0.8 * n)\<close> rows and the test part the other
  \<open>n - floor(0.8 * n)\<close>; train is the prefix and test the suffix at that index, so they do
  not overlap and train followed by test is the working series. For the four-day series,
  differenced column or not, train is the first three rows and test the last one. (This
  holds for every length, in particular for \<open>n \<ge> 2\<close>.)
\<close>

theorem split_sizes_and_concat:
  "length (fst (train_test_split w)) = nat \<lfloor>0.8 * real (length w)\<rfloor>
   \<and> length (snd (train_test_split w)) = length w - nat \<lfloor>0.8 * real (length w)\<rfloor>
   \<and> length (fst (train_test_split w)) + length (snd (train_test_split w)) = length w
   \<and> fst (train_test_split w) = take (length (fst (train_test_split w))) w
   \<and> snd (train_test_split w) = drop (length (fst (train_test_split w))) w
   \<and> fst (train_test_split w) @ snd (train_test_split w) = w
   \<and> train_test_split scenario_series = (take 3 scenario_series, drop 3 scenario_series)
   \<and> train_test_split (check_stationarity p scenario_series)
       = (take 3 (check_stationarity p scenario_series), drop 3 (check_stationarity p scenario_series))"
proof -
  have k: "nat \<lfloor>0.8 * real (length w)\<rfloor> = train_size (length w)"
    by (simp add: train_size_def mult.commute)
  have l: "length (fst (train_test_split w)) = train_size (length w)"
    using train_size_le [of "length w"] by (simp add: train_test_split_def)
  have s4: "train_size 4 = 3" by (simp add: train_size_eq)
  have len4: "length scenario_series = 4"
    by (simp add: scenario_series_def)
  have len: "length (check_stationarity p scenario_series) = 4"
    by (simp add: check_stationarity_def set_Seats_Booked_Diff_def without_Seats_Booked_Diff_def
        scenario_series_def)
  have "train_test_split (check_stationarity p scenario_series)
       = (take 3 (check_stationarity p scenario_series), drop 3 (check_stationarity p scenario_series))"
    unfolding train_test_split_def len s4 ..
  moreover have "train_test_split scenario_series = (take 3 scenario_series, drop 3 scenario_series)"
    unfolding train_test_split_def len4 s4 ..
  moreover have "length (snd (train_test_split w)) = length w - nat \<lfloor>0.8 * real (length w)\<rfloor>"
    unfolding k by (simp add: train_test_split_def)
  moreover have "fst (train_test_split w) = take (length (fst (train_test_split w))) w"
    unfolding l by (simp add: train_test_split_def)
  moreover have "snd (train_test_split w) = drop (length (fst (train_test_split w))) w"
    unfolding l by (simp add: train_test_split_def)
  moreover have "fst (train_test_split w) @ snd (train_test_split w) = w"
    by (simp add: train_test_split_def)
  ultimately show ?thesis using l k train_size_le [of "length w"]
    by (simp add: train_test_split_def)
qed

text \<open>
  C4, as stated, fails: on a data set of one day the run does not reach the split. It ends
  at the stationarity check (line 91) with the \<open>ValueError\<close> that \<open>adfuller\<close> raises.
  A data set of three days ends the same way, although a split at \<open>floor(0.8 * 3) = 2\<close>
  would leave no part empty.
\<close>

theorem run_of_one_day_counterexample:
  "length (df_daily one_day) = 1
   \<and> adf_test naive_statsmodels (map Seats_Booked (df_daily one_day)) = Inl ValueError
   \<and> demand_forecasting naive_statsmodels 30 one_day = Inl ValueError
   \<and> length (df_daily three_days) = 3 \<and> train_size 3 = 2
   \<and> demand_forecasting naive_statsmodels 30 three_days = Inl ValueError"
proof -
  have l: "length (df_daily one_day) = 1"
    unfolding df_daily_one_day by (simp add: one_day_def)
  then have adf: "adf_test naive_statsmodels (map Seats_Booked (df_daily one_day)) = Inl ValueError"
    by (intro adf_test_short) simp
  have "one_day \<noteq> []" by (simp add: one_day_def)
  then have run: "demand_forecasting naive_statsmodels 30 one_day = Inl ValueError"
    by (simp add: demand_forecasting_def adf)
  have l3: "length (df_daily three_days) = 3"
    unfolding df_daily_three_days by (simp add: three_days_def)
  then have "adf_test naive_statsmodels (map Seats_Booked (df_daily three_days)) = Inl ValueError"
    by (intro adf_test_short) simp
  moreover have "three_days \<noteq> []" by (simp add: three_days_def)
  ultimately have run3: "demand_forecasting naive_statsmodels 30 three_days = Inl ValueError"
    by (simp add: demand_forecasting_def)
  have k: "train_size 3 = 2" by (simp add: train_size_eq)
  show ?thesis
    by (intro conjI) (rule l adf run l3 k run3)+
qed

text \<open>
  C4, amended. The split has no check and no error of its own. A run on a daily series of
  fewer than 4 days ends before the split, with the \<open>ValueError\<close> of \<open>adfuller\<close>. A run
  that completes has split a series of at least 4 rows at \<open>floor(0.8 * n)\<close>: the train
  part has at least 3 rows, the test part at least 1, and train followed by test is the
  working series.
\<close>

theorem split_reached_with_four_rows:
  "(df \<noteq> [] \<and> length (df_daily df) < 4 \<longrightarrow> demand_forecasting lib h df = Inl ValueError)
   \<and> (demand_forecasting lib h df = Inr r \<longrightarrow>
         4 \<le> length (working r)
         \<and> train r = take (train_size (length (working r))) (working r)
         \<and> test r = drop (train_size (length (working r))) (working r)
         \<and> 3 \<le> length (train r) \<and> 1 \<le> length (test r)
         \<and> train r \<noteq> [] \<and> test r \<noteq> []
         \<and> train r @ test r = working r)"
proof -
  have short: "demand_forecasting lib h df = Inl ValueError"
    if "df \<noteq> []" "length (df_daily df) < 4"
    using that by (simp add: demand_forecasting_def adf_test_short)
  have long: "4 \<le> length (working r)
         \<and> train r = take (train_size (length (working r))) (working r)
         \<and> test r = drop (train_size (length (working r))) (working r)
         \<and> 3 \<le> length (train r) \<and> 1 \<le> length (test r)
         \<and> train r \<noteq> [] \<and> test r \<noteq> []
         \<and> train r @ test r = working r"
    if run: "demand_forecasting lib h df = Inr r"
  proof -
    from demand_forecasting_Inr [OF run] obtain p
      where adf: "adf_test lib (map Seats_Booked (df_daily df)) = Inr p"
        and w: "working r = check_stationarity p (df_daily df)"
        and tr: "train r = fst (train_test_split (working r))"
        and te: "test r = snd (train_test_split (working r))"
      by blast
    from adf_test_Inr [OF adf] have "4 \<le> length (df_daily df)" by simp
    then have n: "4 \<le> length (working r)"
      unfolding w by (simp add: check_stationarity_columns)
    note k = train_size_ge3 [OF n]
    have tr': "train r = take (train_size (length (working r))) (working r)"
      and te': "test r = drop (train_size (length (working r))) (working r)"
      unfolding tr te by (simp_all add: train_test_split_def)
    have ltr: "length (train r) = train_size (length (working r))"
      unfolding tr' using k by simp
    have lte: "length (test r) = length (working r) - train_size (length (working r))"
      unfolding te' by simp
    have "3 \<le> length (train r)" "1 \<le> length (test r)"
      using k ltr lte by linarith+
    moreover from this have "train r \<noteq> []" "test r \<noteq> []" by auto
    moreover have "train r @ test r = working r"
      unfolding tr te by (simp add: train_test_split_def)
    ultimately show ?thesis using n tr' te' by simp
  qed
  show ?thesis
  proof (rule conjI; rule impI)
    assume "df \<noteq> [] \<and> length (df_daily df) < 4"
    then show "demand_forecasting lib h df = Inl ValueError" using short by simp
  next
    assume "demand_forecasting lib h df = Inr r"
    then show "4 \<le> length (working r)
         \<and> train r = take (train_size (length (working r))) (working r)
         \<and> test r = drop (train_size (length (working r))) (working r)
         \<and> 3 \<le> length (train r) \<and> 1 \<le> length (test r)
         \<and> train r \<noteq> [] \<and> test r \<noteq> []
         \<and> train r @ test r = working r" by (rule long)
  qed
qed

theorem split_reached_with_four_rows_witness:
  "three_days \<noteq> [] \<and> length (df_daily three_days) < 4
   \<and> demand_forecasting naive_statsmodels 30 three_days = Inl ValueError
   \<and> (\<exists>r. demand_forecasting naive_statsmodels 30 ten_days = Inr r
         \<and> length (working r) = 10 \<and> length (train r) = 8 \<and> length (test r) = 2)"
proof -
  from run_ten_days obtain r where run: "demand_forecasting naive_statsmodels 30 ten_days = Inr r"
    and w: "working r = check_stationarity 0.9966 ten_days" by blast
  have l: "length (working r) = 10"
    unfolding w by (simp add: check_stationarity_columns ten_days_def)
  have s: "train_size 10 = 8" by (simp add: train_size_eq)
  note th = split_reached_with_four_rows [of ten_days naive_statsmodels 30 r,
      THEN conjunct2, THEN mp, OF run, unfolded l s]
  from th have "train r = take 8 (working r)" and "test r = drop 8 (working r)"
    by simp_all
  then have tr: "length (train r) = 8" and te: "length (test r) = 2"
    using l by simp_all
  have a: "three_days \<noteq> []" and b: "length (df_daily three_days) < 4"
    unfolding df_daily_three_days by (simp_all add: three_days_def)
  from split_reached_with_four_rows [of three_days naive_statsmodels 30, THEN conjunct1] a b
  have c: "demand_forecasting naive_statsmodels 30 three_days = Inl ValueError" by simp
  show ?thesis
    by (intro conjI exI [of _ r]) (rule a b c run l tr te)+
qed

section \<open>The evaluator\<close>



text \<open>
  C9. When both parts of the split are non-empty, the forecast over the test part has as
  many entries as the test part, so \<open>mean_squared_error\<close> does not raise its
  \<open>ValueError\<close> for inconsistent lengths, and the evaluation returns a score.
\<close>

theorem evaluation_lengths_agree:
  "fst (train_test_split frame) \<noteq> [] \<Longrightarrow> snd (train_test_split frame) \<noteq> [] \<Longrightarrow>
     length (get_forecast lib res (length (snd (train_test_split frame))))
       = length (snd (train_test_split frame))
     \<and> mean_squared_error (map (\<lambda>r. real_of_int (Seats_Booked r)) (snd (train_test_split frame)))
          (get_forecast lib res (length (snd (train_test_split frame)))) \<noteq> Inl ValueError
     \<and> (\<exists>predicted_mean score.
           evaluator lib res (snd (train_test_split frame)) = Inr (predicted_mean, score)
           \<and> length predicted_mean = length (snd (train_test_split frame)))"
proof -
  assume ne: "snd (train_test_split frame) \<noteq> []"
  have "mean_squared_error (map (\<lambda>r. real_of_int (Seats_Booked r)) (snd (train_test_split frame)))
          (get_forecast lib res (length (snd (train_test_split frame)))) \<noteq> Inl ValueError"
    using ne by (simp add: mean_squared_error_def length_get_forecast)
  then show ?thesis
    using evaluator_nonempty [OF ne, of lib res] by (simp add: length_get_forecast)
qed

theorem evaluation_lengths_agree_witness:
  "fst (train_test_split scenario_series) \<noteq> [] \<and> snd (train_test_split scenario_series) \<noteq> []
   \<and> length (get_forecast naive_statsmodels [10, 12, 9] (length (snd (train_test_split scenario_series)))) = 1
   \<and> length (snd (train_test_split scenario_series)) = 1
   \<and> (\<exists>score. evaluator naive_statsmodels [10, 12, 9] (snd (train_test_split scenario_series)) = Inr ([9], score))"
  using evaluation_lengths_agree [of scenario_series naive_statsmodels "[10, 12, 9]"]
  by (simp add: scenario_series_def train_test_split_def train_size_eq evaluator_def
      get_forecast_def mean_squared_error_def naive_statsmodels_def)

section \<open>The forecaster\<close>

text \<open>
  C3. For a fitted result, a horizon \<open>h\<close> from 7 to 90 and a non-empty daily series, the
  future forecast has \<open>h\<close> values and \<open>h\<close> dates; the first date is the day after the
  last date of the series, and each later date is the day after the one before.
\<close>

theorem future_forecast_dates:
  "7 \<le> h \<Longrightarrow> h \<le> 90 \<Longrightarrow> series \<noteq> [] \<Longrightarrow>
     \<exists>vals dates. forecaster lib res h series = Inr (vals, dates)
        \<and> length vals = h \<and> length dates = h
        \<and> hd dates = Date (last series) + 1
        \<and> (\<forall>i. Suc i < h \<longrightarrow> dates ! Suc i = dates ! i + 1)"
proof -
  assume h: "7 \<le> h" and ne: "series \<noteq> []"
  let ?dates = "date_range (Date (last series) + 1) h"
  have "hd ?dates = Date (last series) + 1"
    using h by (simp add: date_range_def hd_map upt_conv_Cons)
  moreover have "\<forall>i. Suc i < h \<longrightarrow> ?dates ! Suc i = ?dates ! i + 1"
    by (simp add: nth_date_range)
  ultimately show ?thesis
    using forecaster_nonempty [OF ne, of lib res h]
    by (simp add: length_forecast length_date_range)
qed

theorem future_forecast_dates_witness:
  "(7::nat) \<le> 7 \<and> (7::nat) \<le> 90 \<and> scenario_series \<noteq> []
   \<and> forecaster naive_statsmodels [10, 12, 9] 7 scenario_series
       = Inr ([9, 9, 9, 9, 9, 9, 9], [19362, 19363, 19364, 19365, 19366, 19367, 19368])"
  using future_forecast_dates [of 7 scenario_series naive_statsmodels "[10, 12, 9]"]
  by (simp add: scenario_series_def forecaster_def iloc_last_def forecast_def date_range_def
      naive_statsmodels_def upt_conv_Cons)

section \<open>The upload page\<close>





end
